theory Spec2Isabelle
  imports Main
begin

section \<open>Data model (Server/models/User.js)\<close>

text \<open>
  The role and status fields of the Mongoose schema are string enums; they become
  datatypes. A document of the collection is the record \<open>user\<close>. The query
  modifier \<^verbatim>\<open>.select('-password')\<close> yields a document without the password
  field: that shape is the record \<open>userDoc\<close>, and \<open>user\<close> extends it by the
  password, so that the projection is the record truncation. Object ids are natural
  numbers. The timestamps and the version key are left out: no route handler reads
  them. The schema's \<^verbatim>\<open>trim\<close> and \<^verbatim>\<open>lowercase\<close> setters are written out
  where a handler tests the raw value before the document is built (sign-up and
  create); the strings of an update body are taken as these setters leave them.
  The role of a stored document is one of the five values of the schema's enum; a
  role string outside the enum, which an update can store because it runs no
  validator, is outside this model.
\<close>

datatype userRole = User | Tl | Manager | Admin | Master

datatype userStatus = Active | Inactive

record userDoc =
  uid :: nat
  firstName :: string
  lastName :: string
  email :: string
  phoneNum :: string
  role :: userRole
  tlId :: "nat option"
  managerId :: "nat option"
  status :: userStatus
  department :: "string option"
  position :: "string option"

record user = userDoc +
  password :: string

text \<open>The collection, in its natural (insertion) order.\<close>

type_synonym directory = "user list"

text \<open>A failed request: the HTTP status and the message of the JSON body.\<close>

datatype httpError = E400 string | E403 string | E404 string | E500 string

definition selectNoPassword :: "user \<Rightarrow> userDoc" where
  "selectNoPassword u = userDoc.truncate u"

definition findById :: "directory \<Rightarrow> nat \<Rightarrow> user option" where
  "findById dir i = find (\<lambda>u. uid u = i) dir"

definition findOneByEmail :: "directory \<Rightarrow> string \<Rightarrow> user option" where
  "findOneByEmail dir e = find (\<lambda>u. email u = e) dir"

section \<open>Role hierarchy\<close>

text \<open>The helper \<^verbatim>\<open>canManageRole\<close> of the server's routes file.\<close>

fun roleHierarchy :: "userRole \<Rightarrow> nat" where
  "roleHierarchy Master = 4"
| "roleHierarchy Admin = 3"
| "roleHierarchy Manager = 2"
| "roleHierarchy Tl = 1"
| "roleHierarchy User = 0"

definition canManageRole :: "userRole \<Rightarrow> userRole \<Rightarrow> bool" where
  "canManageRole currentUserRole targetRole =
     (roleHierarchy currentUserRole > roleHierarchy targetRole)"

text \<open>
  The helper of the same name in Client/src/context/AuthContext.tsx. Its first
  argument is the role of \<^verbatim>\<open>state.user\<close>, \<open>None\<close> when nobody is logged in.
\<close>

definition canManageRole_client :: "userRole option \<Rightarrow> userRole \<Rightarrow> bool" where
  "canManageRole_client stateUser r =
     (case stateUser of
        None \<Rightarrow> False
      | Some userRole \<Rightarrow>
          if userRole = Master then True
          else roleHierarchy userRole > roleHierarchy r)"

section \<open>Read routes\<close>

text \<open>GET /api/me\<close>

definition getMe :: "directory \<Rightarrow> nat \<Rightarrow> httpError + userDoc" where
  "getMe dir actorId =
     (case findById dir actorId of
        None \<Rightarrow> Inl (E404 ''User not found'')
      | Some u \<Rightarrow> Inr (selectNoPassword u))"

text \<open>
  GET /api/users. \<open>usersQuery dir currentUser\<close> is the Mongo filter the handler
  builds, as a predicate on documents; the empty filter matches every document. In the
  manager branch the inner \<^verbatim>\<open>Users.find({managerId: currentUser._id})\<close> runs on the
  whole collection and its documents are cast to their ids by \<^verbatim>\<open>$in\<close>.
\<close>

definition usersQuery :: "directory \<Rightarrow> user \<Rightarrow> user \<Rightarrow> bool" where
  "usersQuery dir currentUser u =
     (if role currentUser \<noteq> Master then
        (if role currentUser = Admin then role u \<in> {Manager, Tl, User}
         else if role currentUser = Manager then
           (managerId u = Some (uid currentUser)
            \<or> (case tlId u of
                  None \<Rightarrow> False
                | Some t \<Rightarrow>
                    t \<in> set (map uid
                      (filter (\<lambda>v. managerId v = Some (uid currentUser)) dir))))
         else if role currentUser = Tl then tlId u = Some (uid currentUser)
         else True)
      else True)"

definition getUsers :: "directory \<Rightarrow> nat \<Rightarrow> httpError + userDoc list" where
  "getUsers dir actorId =
     (case findById dir actorId of
        None \<Rightarrow> Inl (E404 ''User not found'')
      | Some currentUser \<Rightarrow>
          Inr (map selectNoPassword (filter (usersQuery dir currentUser) dir)))"

text \<open>
  GET /api/users/:id. The handler runs behind the authentication middleware, so the
  request has an actor, but the handler never reads it.
\<close>

definition getUserById :: "directory \<Rightarrow> nat \<Rightarrow> nat \<Rightarrow> httpError + userDoc" where
  "getUserById dir actorId targetId =
     (case findById dir targetId of
        None \<Rightarrow> Inl (E404 ''User not found'')
      | Some u \<Rightarrow> Inr (selectNoPassword u))"

text \<open>
  GET /api/dashboard/stats. The counters of the JSON object, by the branch that
  built it; an actor of role user gets the empty object.
\<close>

datatype stats =
  MasterStats nat nat nat nat nat
| AdminStats nat nat nat
| ManagerStats nat nat
| TlStats nat
| NoStats

definition countDocuments :: "directory \<Rightarrow> (user \<Rightarrow> bool) \<Rightarrow> nat" where
  "countDocuments dir q = length (filter q dir)"

definition dashboardStats :: "directory \<Rightarrow> nat \<Rightarrow> httpError + stats" where
  "dashboardStats dir actorId =
     (case findById dir actorId of
        None \<Rightarrow> Inl (E404 ''User not found'')
      | Some currentUser \<Rightarrow>
          Inr (if role currentUser = Master then
                 MasterStats (countDocuments dir (\<lambda>u. True))
                   (countDocuments dir (\<lambda>u. role u = Admin))
                   (countDocuments dir (\<lambda>u. role u = Manager))
                   (countDocuments dir (\<lambda>u. role u = Tl))
                   (countDocuments dir (\<lambda>u. role u = User))
               else if role currentUser = Admin then
                 AdminStats (countDocuments dir (\<lambda>u. role u = Manager))
                   (countDocuments dir (\<lambda>u. role u = Tl))
                   (countDocuments dir (\<lambda>u. role u = User))
               else if role currentUser = Manager then
                 ManagerStats
                   (countDocuments dir
                      (\<lambda>u. managerId u = Some (uid currentUser) \<and> role u = Tl))
                   (countDocuments dir
                      (\<lambda>u. (managerId u = Some (uid currentUser) \<and> role u = User)
                         \<or> (case tlId u of
                               None \<Rightarrow> False
                             | Some t \<Rightarrow>
                                 t \<in> set (map uid
                                   (filter (\<lambda>v. managerId v = Some (uid currentUser)
                                                \<and> role v = Tl) dir)))))
               else if role currentUser = Tl then
                 TlStats (countDocuments dir
                            (\<lambda>u. tlId u = Some (uid currentUser) \<and> role u = User))
               else NoStats))"

section \<open>Write routes\<close>

text \<open>
  Request bodies. A field that the JSON body does not carry is \<open>None\<close>. The two
  ownership links of an update can also be sent as null, which clears the link:
  \<open>Some None\<close>. JavaScript treats a missing or empty string as false.
\<close>

definition truthy :: "string option \<Rightarrow> bool" where
  "truthy v = (case v of None \<Rightarrow> False | Some s \<Rightarrow> s \<noteq> [])"

record signUpBody =
  s_firstName :: "string option"
  s_lastName :: "string option"
  s_email :: "string option"
  s_password :: "string option"
  s_phoneNum :: "string option"

record createBody =
  c_firstName :: "string option"
  c_lastName :: "string option"
  c_email :: "string option"
  c_password :: "string option"
  c_phoneNum :: "string option"
  c_role :: "userRole option"
  c_department :: "string option"
  c_position :: "string option"
  c_tlId :: "nat option"
  c_managerId :: "nat option"

record updateBody =
  u_firstName :: "string option"
  u_lastName :: "string option"
  u_email :: "string option"
  u_phoneNum :: "string option"
  u_role :: "userRole option"
  u_department :: "string option"
  u_position :: "string option"
  u_tlId :: "nat option option"
  u_managerId :: "nat option option"
  u_status :: "userStatus option"

text \<open>
  The two routes that build a new document. The JavaScript string functions behind
  the schema's setters are parameters: \<open>trim\<close> is \<^verbatim>\<open>String.prototype.trim\<close> and
  \<open>toLowerCase\<close> is \<^verbatim>\<open>String.prototype.toLowerCase\<close>. The email setters run on
  the query filter as well as on the new document, the lowercase setter first. The
  \<^verbatim>\<open>required\<close> validators of \<^verbatim>\<open>save\<close> refuse a document whose first name,
  last name, email, password or phone number is empty after the setters; the
  exception ends in the handler's catch clause and nothing is stored.
\<close>

definition normEmail :: "(string \<Rightarrow> string) \<Rightarrow> (string \<Rightarrow> string) \<Rightarrow> string \<Rightarrow> string" where
  "normEmail trim toLowerCase e = trim (toLowerCase e)"

definition validateRequired :: "user \<Rightarrow> bool" where
  "validateRequired u =
     (firstName u \<noteq> [] \<and> lastName u \<noteq> [] \<and> email u \<noteq> []
      \<and> password u \<noteq> [] \<and> phoneNum u \<noteq> [])"

text \<open>
  POST /api/SignUp, a route without the authentication middleware. The id of the new
  document and the bcrypt hash are inputs. The schema defaults fill the role (user),
  the links (null) and the status (active).
\<close>

definition signUp ::
  "(string \<Rightarrow> string) \<Rightarrow> (string \<Rightarrow> string) \<Rightarrow> directory \<Rightarrow> signUpBody \<Rightarrow> nat \<Rightarrow> string
     \<Rightarrow> (httpError + string \<times> string \<times> string) \<times> directory" where
  "signUp trim toLowerCase dir body newId hashedPassword =
     (if \<not> truthy (s_firstName body) \<or> \<not> truthy (s_lastName body)
         \<or> \<not> truthy (s_email body) \<or> \<not> truthy (s_password body)
         \<or> \<not> truthy (s_phoneNum body)
      then (Inl (E400 ''All fields are required''), dir)
      else if findOneByEmail dir (normEmail trim toLowerCase (the (s_email body))) \<noteq> None
      then (Inl (E400 ''Email already exists''), dir)
      else
        (let newUser = \<lparr>uid = newId,
               firstName = trim (the (s_firstName body)),
               lastName = trim (the (s_lastName body)),
               email = normEmail trim toLowerCase (the (s_email body)),
               phoneNum = the (s_phoneNum body),
               role = User, tlId = None, managerId = None, status = Active,
               department = None, position = None,
               password = hashedPassword\<rparr>
         in if validateRequired newUser
            then (Inr (firstName newUser, lastName newUser, email newUser), dir @ [newUser])
            else (Inl (E500 ''Internal server error''), dir)))"

text \<open>
  POST /api/users. \<^verbatim>\<open>canManageRole(currentUser.role, undefined)\<close> compares a
  number with \<^verbatim>\<open>undefined\<close> and is false. A missing password makes bcrypt
  throw, a missing required string makes \<^verbatim>\<open>save\<close> throw; both end in the
  handler's catch clause.
\<close>

type_synonym createdUser =
  "nat \<times> string \<times> string \<times> string \<times> userRole \<times> string option \<times> string option"

definition createUser ::
  "(string \<Rightarrow> string) \<Rightarrow> (string \<Rightarrow> string) \<Rightarrow> directory \<Rightarrow> nat \<Rightarrow> createBody \<Rightarrow> nat \<Rightarrow> string
     \<Rightarrow> (httpError + createdUser) \<times> directory" where
  "createUser trim toLowerCase dir actorId body newId hashedPassword =
     (case findById dir actorId of
        None \<Rightarrow> (Inl (E404 ''User not found''), dir)
      | Some currentUser \<Rightarrow>
          if \<not> (case c_role body of
                   None \<Rightarrow> False
                 | Some r \<Rightarrow> canManageRole (role currentUser) r)
          then (Inl (E403 ''You don't have permission to create users with this role''), dir)
          else if c_role body = Some User \<and> c_tlId body = None
          then (Inl (E400 ''Users must have a Team Leader''), dir)
          else if (c_role body = Some User \<or> c_role body = Some Tl)
                  \<and> c_managerId body = None
          then (Inl (E400 ''Users and Team Leaders must have a Manager''), dir)
          else if (case c_email body of
                     None \<Rightarrow> False
                   | Some e \<Rightarrow> findOneByEmail dir (normEmail trim toLowerCase e) \<noteq> None)
          then (Inl (E400 ''Email already exists''), dir)
          else if c_password body = None \<or> c_firstName body = None
                  \<or> c_lastName body = None \<or> c_email body = None
                  \<or> c_phoneNum body = None
          then (Inl (E500 ''Internal server error''), dir)
          else
            (let newUser = \<lparr>uid = newId,
                   firstName = trim (the (c_firstName body)),
                   lastName = trim (the (c_lastName body)),
                   email = normEmail trim toLowerCase (the (c_email body)),
                   phoneNum = the (c_phoneNum body),
                   role = the (c_role body), tlId = c_tlId body,
                   managerId = c_managerId body, status = Active,
                   department = map_option trim (c_department body),
                   position = map_option trim (c_position body),
                   password = hashedPassword\<rparr>
             in if validateRequired newUser
                then (Inr (uid newUser, firstName newUser, lastName newUser, email newUser,
                           role newUser, department newUser, position newUser),
                      dir @ [newUser])
                else (Inl (E500 ''Internal server error''), dir)))"

text \<open>
  PUT /api/users/:id. \<open>applyUpdates\<close> is the \<^verbatim>\<open>$set\<close> of the fields left after
  the undefined ones are removed; \<open>findByIdAndUpdate\<close> applies it to the document
  with the given id. The write fails on the unique index of the email field when
  another document holds the new email. The id of the path is taken in the form that
  \<^verbatim>\<open>toString\<close> gives the actor's id, so that the handler's string comparison
  is the equality of ids.
\<close>

definition applyUpdates :: "user \<Rightarrow> updateBody \<Rightarrow> user" where
  "applyUpdates u b =
     u\<lparr>firstName := (case u_firstName b of None \<Rightarrow> firstName u | Some v \<Rightarrow> v),
       lastName := (case u_lastName b of None \<Rightarrow> lastName u | Some v \<Rightarrow> v),
       email := (case u_email b of None \<Rightarrow> email u | Some v \<Rightarrow> v),
       phoneNum := (case u_phoneNum b of None \<Rightarrow> phoneNum u | Some v \<Rightarrow> v),
       role := (case u_role b of None \<Rightarrow> role u | Some v \<Rightarrow> v),
       department := (case u_department b of None \<Rightarrow> department u | Some v \<Rightarrow> Some v),
       position := (case u_position b of None \<Rightarrow> position u | Some v \<Rightarrow> Some v),
       tlId := (case u_tlId b of None \<Rightarrow> tlId u | Some v \<Rightarrow> v),
       managerId := (case u_managerId b of None \<Rightarrow> managerId u | Some v \<Rightarrow> v),
       status := (case u_status b of None \<Rightarrow> status u | Some v \<Rightarrow> v)\<rparr>"

fun findByIdAndUpdate :: "directory \<Rightarrow> nat \<Rightarrow> updateBody \<Rightarrow> directory" where
  "findByIdAndUpdate [] i b = []"
| "findByIdAndUpdate (u # us) i b =
     (if uid u = i then applyUpdates u b # us else u # findByIdAndUpdate us i b)"

definition emailTakenByOther :: "directory \<Rightarrow> nat \<Rightarrow> updateBody \<Rightarrow> bool" where
  "emailTakenByOther dir i b =
     (case u_email b of
        None \<Rightarrow> False
      | Some e \<Rightarrow> find (\<lambda>u. uid u \<noteq> i \<and> email u = e) dir \<noteq> None)"

definition updateUser ::
  "directory \<Rightarrow> nat \<Rightarrow> nat \<Rightarrow> updateBody
     \<Rightarrow> (httpError + userDoc option) \<times> directory" where
  "updateUser dir actorId targetId body =
     (case findById dir actorId of
        None \<Rightarrow> (Inl (E404 ''User not found''), dir)
      | Some currentUser \<Rightarrow>
          (case findById dir targetId of
             None \<Rightarrow> (Inl (E404 ''User to update not found''), dir)
           | Some userToUpdate \<Rightarrow>
               if uid currentUser \<noteq> targetId
                  \<and> \<not> canManageRole (role currentUser) (role userToUpdate)
               then (Inl (E403 ''You don't have permission to update this user''), dir)
               else if (case u_role body of
                          None \<Rightarrow> False
                        | Some r \<Rightarrow>
                            r \<noteq> role userToUpdate \<and> uid currentUser \<noteq> targetId
                            \<and> \<not> canManageRole (role currentUser) r)
               then (Inl (E403 ''You don't have permission to assign this role''), dir)
               else if emailTakenByOther dir targetId body
               then (Inl (E500 ''Internal server error''), dir)
               else
                 (let dir' = findByIdAndUpdate dir targetId body
                  in (Inr (map_option selectNoPassword (findById dir' targetId)), dir'))))"

text \<open>DELETE /api/users/:id\<close>

definition hasSubordinates :: "directory \<Rightarrow> nat \<Rightarrow> user option" where
  "hasSubordinates dir targetId =
     find (\<lambda>u. tlId u = Some targetId \<or> managerId u = Some targetId) dir"

fun findByIdAndDelete :: "directory \<Rightarrow> nat \<Rightarrow> directory" where
  "findByIdAndDelete [] i = []"
| "findByIdAndDelete (u # us) i =
     (if uid u = i then us else u # findByIdAndDelete us i)"

definition deleteUser ::
  "directory \<Rightarrow> nat \<Rightarrow> nat \<Rightarrow> (httpError + string) \<times> directory" where
  "deleteUser dir actorId targetId =
     (case findById dir actorId of
        None \<Rightarrow> (Inl (E404 ''User not found''), dir)
      | Some currentUser \<Rightarrow>
          (case findById dir targetId of
             None \<Rightarrow> (Inl (E404 ''User to delete not found''), dir)
           | Some userToDelete \<Rightarrow>
               if \<not> canManageRole (role currentUser) (role userToDelete)
               then (Inl (E403 ''You don't have permission to delete this user''), dir)
               else if hasSubordinates dir targetId \<noteq> None
               then (Inl (E400
                 ''Cannot delete user with subordinates. Reassign subordinates first.''), dir)
               else (Inr ''User deleted successfully'', findByIdAndDelete dir targetId)))"

section \<open>Derived notions and example data\<close>

text \<open>The number of documents that GET /api/users returns to an actor.\<close>

definition visibleCount :: "directory \<Rightarrow> nat \<Rightarrow> nat" where
  "visibleCount dir actorId =
     (case getUsers dir actorId of Inl e \<Rightarrow> 0 | Inr users \<Rightarrow> length users)"

text \<open>
  The manager's scope in the words of the specification: the ids of the team leads
  are collected with the role test, then the direct reports are united with the
  documents owned by one of these team leads.
\<close>

definition spec_managerScope :: "directory \<Rightarrow> nat \<Rightarrow> user list" where
  "spec_managerScope dir m =
     (let tlIds = map uid (filter (\<lambda>v. role v = Tl \<and> managerId v = Some m) dir)
      in filter (\<lambda>u. managerId u = Some m
                   \<or> (case tlId u of None \<Rightarrow> False | Some t \<Rightarrow> t \<in> set tlIds)) dir)"

definition mkUser ::
  "nat \<Rightarrow> string \<Rightarrow> userRole \<Rightarrow> nat option \<Rightarrow> nat option \<Rightarrow> user" where
  "mkUser i e r t m =
     \<lparr>uid = i, firstName = ''First'', lastName = ''Last'',
      email = e, phoneNum = ''0000000000'',
      role = r, tlId = t, managerId = m, status = Active,
      department = None, position = None, password = ''hash''\<rparr>"

text \<open>
  A small organisation: a master, an admin, a manager (3) with one team lead (4) who
  owns one user (5), and a second manager (6) without reports.
\<close>

definition dirA :: directory where
  "dirA = [mkUser 1 ''master@x.org'' Master None None,
           mkUser 2 ''admin@x.org'' Admin None None,
           mkUser 3 ''manager@x.org'' Manager None None,
           mkUser 4 ''tl@x.org'' Tl None (Some 3),
           mkUser 5 ''user@x.org'' User (Some 4) (Some 3),
           mkUser 6 ''manager2@x.org'' Manager None None]"

text \<open>The same organisation after every password was changed.\<close>

definition dirA_rehashed :: directory where
  "dirA_rehashed = map (\<lambda>u. u\<lparr>password := ''other hash''\<rparr>) dirA"

text \<open>
  A directory that POST /api/users can build, since the handler does not look up the
  ids it is given: document 5 has role user and manager 2, and document 6 names
  document 5 as its team lead.
\<close>

definition dirB :: directory where
  "dirB = [mkUser 1 ''master@x.org'' Master None None,
           mkUser 2 ''m1@x.org'' Manager None None,
           mkUser 3 ''m2@x.org'' Manager None None,
           mkUser 4 ''tl@x.org'' Tl None (Some 3),
           mkUser 5 ''u1@x.org'' User (Some 4) (Some 2),
           mkUser 6 ''u2@x.org'' User (Some 5) (Some 3)]"

text \<open>
  The scenario of the specification: manager 1 owns the team leads 2 and 3, team
  lead 2 owns the users 4 and 5, team lead 3 owns user 6; manager 7 with team lead 8
  and user 9 is a second, unrelated team.
\<close>

definition dirS :: directory where
  "dirS = [mkUser 1 ''m@x.org'' Manager None None,
           mkUser 2 ''tl1@x.org'' Tl None (Some 1),
           mkUser 3 ''tl2@x.org'' Tl None (Some 1),
           mkUser 4 ''u1@x.org'' User (Some 2) (Some 1),
           mkUser 5 ''u2@x.org'' User (Some 2) (Some 1),
           mkUser 6 ''u3@x.org'' User (Some 3) (Some 1),
           mkUser 7 ''m2@x.org'' Manager None None,
           mkUser 8 ''tl3@x.org'' Tl None (Some 7),
           mkUser 9 ''u4@x.org'' User (Some 8) (Some 7)]"

text \<open>
  A directory in which a master gave two admins a manager: POST /api/users stores the
  manager link of any role it is sent.
\<close>

definition dirC :: directory where
  "dirC = [mkUser 1 ''master@x.org'' Master None None,
           mkUser 2 ''admin@x.org'' Admin None None,
           mkUser 3 ''manager@x.org'' Manager None None,
           mkUser 4 ''admin2@x.org'' Admin None (Some 3),
           mkUser 5 ''admin3@x.org'' Admin None (Some 3)]"

text \<open>The two string functions on ASCII text, for the examples.\<close>

definition asciiTrim :: "string \<Rightarrow> string" where
  "asciiTrim s =
     rev (dropWhile (\<lambda>c. c \<in> set [CHR '' '', CHR 0x09, CHR 0x0A, CHR 0x0B, CHR 0x0C, CHR 0x0D])
       (rev (dropWhile
         (\<lambda>c. c \<in> set [CHR '' '', CHR 0x09, CHR 0x0A, CHR 0x0B, CHR 0x0C, CHR 0x0D]) s)))"

definition asciiLower :: "string \<Rightarrow> string" where
  "asciiLower s =
     map (\<lambda>c. case map_of (zip ''ABCDEFGHIJKLMNOPQRSTUVWXYZ'' ''abcdefghijklmnopqrstuvwxyz'') c of
                None \<Rightarrow> c
              | Some d \<Rightarrow> d) s"

definition bodyNone :: updateBody where
  "bodyNone = \<lparr>u_firstName = None, u_lastName = None, u_email = None, u_phoneNum = None,
     u_role = None, u_department = None, u_position = None, u_tlId = None,
     u_managerId = None, u_status = None\<rparr>"

definition signUpReq :: signUpBody where
  "signUpReq = \<lparr>s_firstName = Some ''Eve'', s_lastName = Some ''Doe'',
     s_email = Some '' Eve@Example.com'', s_password = Some ''secret'',
     s_phoneNum = Some ''1234567890''\<rparr>"

definition createReq :: createBody where
  "createReq = \<lparr>c_firstName = Some ''Mia '', c_lastName = Some ''Roe'',
     c_email = Some ''mia@example.com'', c_password = Some ''secret'',
     c_phoneNum = Some ''1234567890'', c_role = Some Manager,
     c_department = None, c_position = None, c_tlId = None, c_managerId = None\<rparr>"

definition miaDoc :: user where
  "miaDoc = \<lparr>uid = 7, firstName = ''Mia'', lastName = ''Roe'', email = ''mia@example.com'',
     phoneNum = ''1234567890'', role = Manager, tlId = None, managerId = None,
     status = Active, department = None, position = None, password = ''hash''\<rparr>"

definition eveDoc :: user where
  "eveDoc = \<lparr>uid = 7, firstName = ''Eve'', lastName = ''Doe'', email = ''eve@example.com'',
     phoneNum = ''1234567890'', role = User, tlId = None, managerId = None,
     status = Active, department = None, position = None, password = ''hash''\<rparr>"

section \<open>Basic facts\<close>

lemma mkUser_simps [simp]:
  "uid (mkUser i e r t m) = i"
  "role (mkUser i e r t m) = r"
  "tlId (mkUser i e r t m) = t"
  "managerId (mkUser i e r t m) = m"
  "email (mkUser i e r t m) = e"
  by (simp_all add: mkUser_def)

lemma findById_SomeD: "findById dir i = Some u \<Longrightarrow> u \<in> set dir \<and> uid u = i"
  by (auto simp: findById_def find_Some_iff)

lemma canManageRole_iff_rank:
  "canManageRole r1 r2 \<longleftrightarrow> roleHierarchy r2 < roleHierarchy r1"
  by (simp add: canManageRole_def)

lemma canManageRole_irrefl: "\<not> canManageRole r r"
  by (simp add: canManageRole_def)

lemma length_filter_mono:
  "(\<And>x. x \<in> set xs \<Longrightarrow> P x \<Longrightarrow> Q x) \<Longrightarrow> length (filter P xs) \<le> length (filter Q xs)"
  by (induction xs) auto

section \<open>The role hierarchy\<close>

text \<open>
  Claim C1. The specification says that \<open>canManage(r1, r2)\<close> is the strict rank
  comparison except that a master actor manages every role, another master included.
  The client's helper behaves so; the server's helper has no such branch and denies a
  master managing a master. On every other pair of roles the two helpers agree.
\<close>

theorem canManageRole_master_master:
  "canManageRole Master Master = False
   \<and> canManageRole_client (Some Master) Master = True
   \<and> (\<forall>r1 r2. canManageRole_client (Some r1) r2
         = (r1 = Master \<or> roleHierarchy r1 > roleHierarchy r2))
   \<and> (\<forall>r1 r2. canManageRole r1 r2
         = (canManageRole_client (Some r1) r2 \<and> \<not> (r1 = Master \<and> r2 = Master)))"
proof -
  have a: "canManageRole Master Master = False"
    by (simp add: canManageRole_def)
  have b: "canManageRole_client (Some r1) r2
             = (r1 = Master \<or> roleHierarchy r1 > roleHierarchy r2)" for r1 r2
    by (simp add: canManageRole_client_def)
  have c: "canManageRole r1 r2
             = (canManageRole_client (Some r1) r2 \<and> \<not> (r1 = Master \<and> r2 = Master))"
    for r1 r2
    by (cases r1; cases r2) (simp_all add: canManageRole_def canManageRole_client_def)
  from a b c show ?thesis by simp
qed

section \<open>The directory listing\<close>

lemma getUsers_user_role:
  "findById dir a = Some cu \<Longrightarrow> role cu = User
     \<Longrightarrow> getUsers dir a = Inr (map selectNoPassword dir)"
  by (simp add: getUsers_def usersQuery_def)

text \<open>
  Claim C2. The specification gives an actor of role user an empty directory view. The
  handler's filter has no branch for that role, so the query stays empty and the
  whole collection is returned: in \<open>dirA\<close> the user 5 is sent all six documents,
  while the dashboard route gives the same actor no counter at all.
\<close>

theorem getUsers_user_actor_lists_directory:
  "map_option role (findById dirA 5) = Some User
   \<and> getUsers dirA 5 = Inr (map selectNoPassword dirA)
   \<and> visibleCount dirA 5 = 6
   \<and> dashboardStats dirA 5 = Inr NoStats"
  by (simp add: visibleCount_def getUsers_def dashboardStats_def findById_def dirA_def
        usersQuery_def)

text \<open>
  Claim C3. The specification builds the manager's view from the ids of the reports
  that have role tl. The listing route collects the ids of all reports, whatever
  their role; the dashboard route of the same file does test the role. In \<open>dirB\<close>
  manager 2 is sent document 6, which is owned by the user-role report 5, although
  the specification's scope holds document 5 only and the dashboard counts one team
  member.
\<close>

theorem getUsers_manager_lists_non_tl_reports:
  "map_option role (findById dirB 2) = Some Manager
   \<and> getUsers dirB 2
       = Inr (map selectNoPassword
               [mkUser 5 ''u1@x.org'' User (Some 4) (Some 2),
                mkUser 6 ''u2@x.org'' User (Some 5) (Some 3)])
   \<and> spec_managerScope dirB 2 = [mkUser 5 ''u1@x.org'' User (Some 4) (Some 2)]
   \<and> dashboardStats dirB 2 = Inr (ManagerStats 0 1)"
  by (simp add: getUsers_def dashboardStats_def findById_def dirB_def usersQuery_def
        spec_managerScope_def countDocuments_def)

text \<open>
  Where every report that is named as a team lead has role tl, the listing is the
  specification's scope; the scenario of the specification is such a directory.
\<close>

lemma getUsers_manager_spec:
  assumes "findById dir m = Some cu" and "role cu = Manager"
    and tls: "\<And>v u. v \<in> set dir \<Longrightarrow> u \<in> set dir \<Longrightarrow> managerId v = Some m
                \<Longrightarrow> tlId u = Some (uid v) \<Longrightarrow> role v = Tl"
  shows "getUsers dir m = Inr (map selectNoPassword (spec_managerScope dir m))"
proof -
  from assms(1) have m: "uid cu = m" by (simp add: findById_SomeD)
  have "filter (usersQuery dir cu) dir = spec_managerScope dir m"
    unfolding spec_managerScope_def Let_def
  proof (rule filter_cong [OF refl])
    fix u assume u: "u \<in> set dir"
    show "usersQuery dir cu u
        = (managerId u = Some m
           \<or> (case tlId u of
                 None \<Rightarrow> False
               | Some t \<Rightarrow>
                   t \<in> set (map uid (filter (\<lambda>v. role v = Tl \<and> managerId v = Some m) dir))))"
    proof (cases "tlId u")
      case None
      with assms(2) m show ?thesis by (simp add: usersQuery_def)
    next
      case (Some t)
      have "(t \<in> uid ` {v \<in> set dir. managerId v = Some m})
          = (t \<in> uid ` {v \<in> set dir. role v = Tl \<and> managerId v = Some m})"
        using tls [OF _ u] Some by auto
      with Some assms(2) m show ?thesis by (simp add: usersQuery_def)
    qed
  qed
  with assms(1) show ?thesis by (simp add: getUsers_def)
qed

lemma getUsers_manager_scenario:
  "getUsers dirS 1
     = Inr (map selectNoPassword
             [mkUser 2 ''tl1@x.org'' Tl None (Some 1),
              mkUser 3 ''tl2@x.org'' Tl None (Some 1),
              mkUser 4 ''u1@x.org'' User (Some 2) (Some 1),
              mkUser 5 ''u2@x.org'' User (Some 2) (Some 1),
              mkUser 6 ''u3@x.org'' User (Some 3) (Some 1)])"
  by (simp add: getUsers_def findById_def dirS_def usersQuery_def)

section \<open>The single-record view\<close>

lemma getUserById_found:
  "findById dir targetId = Some u
     \<Longrightarrow> getUserById dir actorId targetId = Inr (selectNoPassword u)"
  by (simp add: getUserById_def)

lemma getUserById_missing:
  "findById dir targetId = None
     \<Longrightarrow> getUserById dir actorId targetId = Inl (E404 ''User not found'')"
  by (simp add: getUserById_def)

text \<open>
  Claim C4. The specification denies an admin the view of a master's record and
  allows the admin their own. The handler of GET /api/users/:id never reads the
  actor: the admin 2 of \<open>dirA\<close> is sent the record of the master 1 (and their own).
  The other routes do test the rank for the same pair: the update and the delete of
  the master by the admin are refused, and the admin's listing holds neither the
  master nor the admin.
\<close>

theorem getUserById_admin_views_master:
  "map_option role (findById dirA 2) = Some Admin
   \<and> map_option role (findById dirA 1) = Some Master
   \<and> canManageRole Admin Master = False
   \<and> getUserById dirA 2 1 = Inr (selectNoPassword (mkUser 1 ''master@x.org'' Master None None))
   \<and> getUserById dirA 2 2 = Inr (selectNoPassword (mkUser 2 ''admin@x.org'' Admin None None))
   \<and> fst (updateUser dirA 2 1 bodyNone)
       = Inl (E403 ''You don't have permission to update this user'')
   \<and> deleteUser dirA 2 1
       = (Inl (E403 ''You don't have permission to delete this user''), dirA)
   \<and> getUsers dirA 2
       = Inr (map selectNoPassword
               [mkUser 3 ''manager@x.org'' Manager None None,
                mkUser 4 ''tl@x.org'' Tl None (Some 3),
                mkUser 5 ''user@x.org'' User (Some 4) (Some 3),
                mkUser 6 ''manager2@x.org'' Manager None None])"
  by (simp add: getUserById_def updateUser_def deleteUser_def getUsers_def usersQuery_def
        findById_def dirA_def canManageRole_def)

section \<open>Updating a record\<close>

lemma uid_applyUpdates [simp]: "uid (applyUpdates u b) = uid u"
  by (simp add: applyUpdates_def)

lemma password_applyUpdates [simp]: "password (applyUpdates u b) = password u"
  by (simp add: applyUpdates_def)

lemma findById_findByIdAndUpdate:
  "findById (findByIdAndUpdate dir i b) i
     = map_option (\<lambda>u. applyUpdates u b) (findById dir i)"
  by (induction dir) (simp_all add: findById_def)

lemma fst_updateUser:
  "fst (updateUser dir a t b) =
     (case findById dir a of
        None \<Rightarrow> Inl (E404 ''User not found'')
      | Some currentUser \<Rightarrow>
          (case findById dir t of
             None \<Rightarrow> Inl (E404 ''User to update not found'')
           | Some userToUpdate \<Rightarrow>
               if uid currentUser \<noteq> t
                  \<and> \<not> canManageRole (role currentUser) (role userToUpdate)
               then Inl (E403 ''You don't have permission to update this user'')
               else if (case u_role b of
                          None \<Rightarrow> False
                        | Some r \<Rightarrow>
                            r \<noteq> role userToUpdate \<and> uid currentUser \<noteq> t
                            \<and> \<not> canManageRole (role currentUser) r)
               then Inl (E403 ''You don't have permission to assign this role'')
               else if emailTakenByOther dir t b
               then Inl (E500 ''Internal server error'')
               else Inr (map_option selectNoPassword
                           (findById (findByIdAndUpdate dir t b) t))))"
  by (simp add: updateUser_def Let_def split: option.splits)

text \<open>
  A self-update is written as sent: each of role, managerId and tlId keeps its stored
  value when the request body does not carry the field, and takes the value of the
  body when it does.
\<close>

lemma updateUser_self:
  assumes "findById dir a = Some cu" and "\<not> emailTakenByOther dir a b"
  shows "\<exists>cu'. updateUser dir a a b
            = (Inr (Some (selectNoPassword cu')), findByIdAndUpdate dir a b)
          \<and> findById (findByIdAndUpdate dir a b) a = Some cu'
          \<and> role cu' = (case u_role b of None \<Rightarrow> role cu | Some r \<Rightarrow> r)
          \<and> managerId cu' = (case u_managerId b of None \<Rightarrow> managerId cu | Some m \<Rightarrow> m)
          \<and> tlId cu' = (case u_tlId b of None \<Rightarrow> tlId cu | Some t \<Rightarrow> t)"
proof -
  from assms(1) have u: "uid cu = a"
    by (simp add: findById_SomeD)
  have f: "findById (findByIdAndUpdate dir a b) a = Some (applyUpdates cu b)"
    by (simp add: findById_findByIdAndUpdate assms(1))
  have "updateUser dir a a b
          = (Inr (Some (selectNoPassword (applyUpdates cu b))), findByIdAndUpdate dir a b)"
    using assms u f by (simp add: updateUser_def Let_def split: option.splits)
  moreover have
    "role (applyUpdates cu b) = (case u_role b of None \<Rightarrow> role cu | Some r \<Rightarrow> r)"
    "managerId (applyUpdates cu b)
       = (case u_managerId b of None \<Rightarrow> managerId cu | Some m \<Rightarrow> m)"
    "tlId (applyUpdates cu b) = (case u_tlId b of None \<Rightarrow> tlId cu | Some t \<Rightarrow> t)"
    by (simp_all add: applyUpdates_def)
  ultimately show ?thesis using f by blast
qed

lemma createUser_refuses_master_role:
  "createUser asciiTrim asciiLower dirA 5 (createReq\<lparr>c_role := Some Master\<rparr>) 7 ''hash''
     = (Inl (E403 ''You don't have permission to create users with this role''), dirA)"
  by (simp add: createUser_def createReq_def dirA_def findById_def canManageRole_def)

text \<open>
  Claim C5. The specification says that role and the manager and team-lead links are
  not self-editable. The handler skips its role check when the actor is the target,
  and it never checks the links: the user 5 of \<open>dirA\<close> sends role master and a null
  manager for their own record and is stored as a master without a manager. The
  same role change is refused when another actor asks for it (the manager 3, who may
  edit user 5), as is the creation of a master by user 5.
\<close>

theorem updateUser_self_promotes:
  "map_option role (findById dirA 5) = Some User
   \<and> fst (updateUser dirA 5 5 (bodyNone\<lparr>u_role := Some Master, u_managerId := Some None\<rparr>))
       = Inr (Some (selectNoPassword (mkUser 5 ''user@x.org'' Master (Some 4) None)))
   \<and> map_option role (findById (snd (updateUser dirA 5 5
         (bodyNone\<lparr>u_role := Some Master, u_managerId := Some None\<rparr>))) 5) = Some Master
   \<and> map_option managerId (findById (snd (updateUser dirA 5 5
         (bodyNone\<lparr>u_role := Some Master, u_managerId := Some None\<rparr>))) 5) = Some None
   \<and> updateUser dirA 3 5 (bodyNone\<lparr>u_role := Some Master\<rparr>)
       = (Inl (E403 ''You don't have permission to assign this role''), dirA)"
  by (simp add: updateUser_def findById_def dirA_def emailTakenByOther_def bodyNone_def
        applyUpdates_def mkUser_def canManageRole_def Let_def)

section \<open>Deleting a record\<close>

lemma findByIdAndDelete_remove1:
  "findById dir i = Some u \<Longrightarrow> findByIdAndDelete dir i = remove1 u dir"
proof (induction dir)
  case Nil
  then show ?case by (simp add: findById_def)
next
  case (Cons x xs)
  from Cons.prems have i: "uid u = i" by (simp add: findById_SomeD)
  show ?case
  proof (cases "uid x = i")
    case True
    with Cons.prems have "x = u" by (simp add: findById_def)
    with True show ?thesis by simp
  next
    case False
    with Cons.prems have "findById xs i = Some u" by (simp add: findById_def)
    with Cons.IH have "findByIdAndDelete xs i = remove1 u xs" by simp
    moreover from False i have "x \<noteq> u" by auto
    ultimately show ?thesis using False by simp
  qed
qed

lemma findById_findByIdAndDelete:
  "distinct (map uid dir) \<Longrightarrow> findById (findByIdAndDelete dir i) i = None"
  unfolding findById_def
  by (induction dir) (auto simp: find_None_iff image_iff)

lemma hasSubordinates_iff:
  "hasSubordinates dir t \<noteq> None
     \<longleftrightarrow> (\<exists>u \<in> set dir. managerId u = Some t \<or> tlId u = Some t)"
  by (auto simp: hasSubordinates_def find_None_iff)

text \<open>
  Claim C6. An actor deleting their own record is always denied, whatever the role:
  the target's role is the actor's own, which the strict rank comparison never
  manages. The directory is left as it was. (An id without a record is answered with
  not-found.)
\<close>

theorem deleteUser_self_denied:
  "deleteUser dir a a
     = (case findById dir a of
          None \<Rightarrow> (Inl (E404 ''User not found''), dir)
        | Some u \<Rightarrow> (Inl (E403 ''You don't have permission to delete this user''), dir))"
  by (simp add: deleteUser_def canManageRole_def split: option.splits)

theorem deleteUser_self_denied_witness:
  "map_option role (findById dirA 1) = Some Master
   \<and> deleteUser dirA 1 1
       = (Inl (E403 ''You don't have permission to delete this user''), dirA)"
proof -
  have h: "findById dirA 1 = Some (mkUser 1 ''master@x.org'' Master None None)"
    by (simp add: findById_def dirA_def)
  from h deleteUser_self_denied [of dirA 1] show ?thesis by simp
qed

text \<open>
  Claim C8. The dependents test is a query over the whole directory: it finds a
  document exactly when some document names the target as its manager or team lead.
  When the permission check passes, a target without dependents is deleted (it is
  removed from the directory, and with unique ids no document with its id is left),
  and a target with a dependent is refused with the subordinates message and the
  directory is unchanged.
\<close>

theorem deleteUser_dependents:
  assumes "findById dir actorId = Some currentUser"
    and "findById dir targetId = Some userToDelete"
    and "canManageRole (role currentUser) (role userToDelete)"
  shows "(hasSubordinates dir targetId \<noteq> None
            \<longleftrightarrow> (\<exists>u \<in> set dir. managerId u = Some targetId \<or> tlId u = Some targetId))
    \<and> (hasSubordinates dir targetId = None \<longrightarrow>
          deleteUser dir actorId targetId
            = (Inr ''User deleted successfully'', remove1 userToDelete dir)
          \<and> (distinct (map uid dir) \<longrightarrow>
                findById (snd (deleteUser dir actorId targetId)) targetId = None))
    \<and> (hasSubordinates dir targetId \<noteq> None \<longrightarrow>
          deleteUser dir actorId targetId
            = (Inl (E400 ''Cannot delete user with subordinates. Reassign subordinates first.''),
               dir))"
proof (intro conjI impI)
  show "hasSubordinates dir targetId \<noteq> None
          \<longleftrightarrow> (\<exists>u \<in> set dir. managerId u = Some targetId \<or> tlId u = Some targetId)"
    by (rule hasSubordinates_iff)
next
  assume n: "hasSubordinates dir targetId = None"
  with assms have d: "deleteUser dir actorId targetId
      = (Inr ''User deleted successfully'', findByIdAndDelete dir targetId)"
    by (simp add: deleteUser_def)
  with assms(2) show "deleteUser dir actorId targetId
      = (Inr ''User deleted successfully'', remove1 userToDelete dir)"
    by (simp add: findByIdAndDelete_remove1)
  assume "distinct (map uid dir)"
  with d show "findById (snd (deleteUser dir actorId targetId)) targetId = None"
    by (simp add: findById_findByIdAndDelete)
next
  assume "hasSubordinates dir targetId \<noteq> None"
  with assms show "deleteUser dir actorId targetId
      = (Inl (E400 ''Cannot delete user with subordinates. Reassign subordinates first.''),
         dir)"
    by (simp add: deleteUser_def)
qed

theorem deleteUser_dependents_witness:
  "hasSubordinates dirA 5 = None
   \<and> deleteUser dirA 2 5
       = (Inr ''User deleted successfully'',
          remove1 (mkUser 5 ''user@x.org'' User (Some 4) (Some 3)) dirA)
   \<and> findById (snd (deleteUser dirA 2 5)) 5 = None
   \<and> hasSubordinates dirA 4 \<noteq> None
   \<and> deleteUser dirA 2 4
       = (Inl (E400 ''Cannot delete user with subordinates. Reassign subordinates first.''),
          dirA)"
proof -
  have a: "findById dirA 2 = Some (mkUser 2 ''admin@x.org'' Admin None None)"
    and u: "findById dirA 5 = Some (mkUser 5 ''user@x.org'' User (Some 4) (Some 3))"
    and t: "findById dirA 4 = Some (mkUser 4 ''tl@x.org'' Tl None (Some 3))"
    by (simp_all add: findById_def dirA_def)
  have cu: "canManageRole (role (mkUser 2 ''admin@x.org'' Admin None None))
              (role (mkUser 5 ''user@x.org'' User (Some 4) (Some 3)))"
    and ct: "canManageRole (role (mkUser 2 ''admin@x.org'' Admin None None))
              (role (mkUser 4 ''tl@x.org'' Tl None (Some 3)))"
    by (simp_all add: canManageRole_def)
  have n: "hasSubordinates dirA 5 = None" and s: "hasSubordinates dirA 4 \<noteq> None"
    by (simp_all add: hasSubordinates_def dirA_def)
  have d: "distinct (map uid dirA)"
    by (simp add: dirA_def)
  from deleteUser_dependents [OF a u cu] deleteUser_dependents [OF a t ct] n s d
  show ?thesis by blast
qed

section \<open>Creating a record\<close>

lemma snd_createUser:
  "snd (createUser trim toLowerCase dir actorId body newId h) = dir
   \<or> (\<exists>newUser. snd (createUser trim toLowerCase dir actorId body newId h) = dir @ [newUser])"
  by (simp add: createUser_def Let_def split: option.splits)

lemma signUp_whitespace_name:
  "signUp asciiTrim asciiLower dirA (signUpReq\<lparr>s_firstName := Some ''  ''\<rparr>) 7 ''hash''
     = (Inl (E500 ''Internal server error''), dirA)"
  by (simp add: signUp_def signUpReq_def truthy_def findOneByEmail_def dirA_def
        normEmail_def asciiTrim_def asciiLower_def validateRequired_def)

text \<open>
  Claim C7, as amended. The authenticated create operation (POST /api/users) either
  refuses and leaves the directory unchanged, or appends exactly one record, which
  has the new id and the role asked for, and that role lies strictly below the rank
  of the creating actor. The public sign-up operation (POST /api/SignUp) either
  refuses and leaves the directory unchanged, or appends exactly one record without
  any creator; that record has role user and no manager or team-lead link.
\<close>

theorem created_role_below_creator:
  "(case createUser trim toLowerCase dir actorId body newId h of
      (Inl e, dir') \<Rightarrow> dir' = dir
    | (Inr resp, dir') \<Rightarrow>
        (\<exists>currentUser newUser.
            findById dir actorId = Some currentUser \<and> dir' = dir @ [newUser]
            \<and> uid newUser = newId \<and> c_role body = Some (role newUser)
            \<and> canManageRole (role currentUser) (role newUser)))
   \<and> (case signUp trim toLowerCase dir sbody newId h of
      (Inl e, dir'') \<Rightarrow> dir'' = dir
    | (Inr resp, dir'') \<Rightarrow>
        (\<exists>newUser. dir'' = dir @ [newUser] \<and> uid newUser = newId \<and> role newUser = User
            \<and> tlId newUser = None \<and> managerId newUser = None))"
proof (rule conjI)
  show "case createUser trim toLowerCase dir actorId body newId h of
      (Inl e, dir') \<Rightarrow> dir' = dir
    | (Inr resp, dir') \<Rightarrow>
        (\<exists>currentUser newUser.
            findById dir actorId = Some currentUser \<and> dir' = dir @ [newUser]
            \<and> uid newUser = newId \<and> c_role body = Some (role newUser)
            \<and> canManageRole (role currentUser) (role newUser))"
  proof (cases "findById dir actorId")
    case None
    then show ?thesis by (simp add: createUser_def)
  next
    case (Some cu)
    show ?thesis
    proof (cases "c_role body")
      case None
      with Some show ?thesis by (simp add: createUser_def)
    next
      case r: (Some r)
      with Some show ?thesis
        by (simp add: createUser_def Let_def)
    qed
  qed
next
  show "case signUp trim toLowerCase dir sbody newId h of
      (Inl e, dir'') \<Rightarrow> dir'' = dir
    | (Inr resp, dir'') \<Rightarrow>
        (\<exists>newUser. dir'' = dir @ [newUser] \<and> uid newUser = newId \<and> role newUser = User
            \<and> tlId newUser = None \<and> managerId newUser = None)"
    by (simp add: signUp_def Let_def)
qed

theorem created_role_below_creator_witness:
  "createUser asciiTrim asciiLower dirA 2 createReq 7 ''hash''
      = (Inr (7, ''Mia'', ''Roe'', ''mia@example.com'', Manager, None, None), dirA @ [miaDoc])
   \<and> signUp asciiTrim asciiLower dirA signUpReq 7 ''hash''
      = (Inr (''Eve'', ''Doe'', ''eve@example.com''), dirA @ [eveDoc])
   \<and> (\<exists>currentUser newUser.
          findById dirA 2 = Some currentUser \<and> dirA @ [miaDoc] = dirA @ [newUser]
          \<and> uid newUser = 7 \<and> c_role createReq = Some (role newUser)
          \<and> canManageRole (role currentUser) (role newUser))
   \<and> (\<exists>newUser. dirA @ [eveDoc] = dirA @ [newUser] \<and> uid newUser = 7 \<and> role newUser = User
          \<and> tlId newUser = None \<and> managerId newUser = None)
   \<and> createUser asciiTrim asciiLower dirA 5 createReq 7 ''hash''
      = (Inl (E403 ''You don't have permission to create users with this role''), dirA)"
proof -
  have c: "createUser asciiTrim asciiLower dirA 2 createReq 7 ''hash''
      = (Inr (7, ''Mia'', ''Roe'', ''mia@example.com'', Manager, None, None), dirA @ [miaDoc])"
    by (simp add: createUser_def createReq_def dirA_def findById_def canManageRole_def
          findOneByEmail_def normEmail_def asciiTrim_def asciiLower_def validateRequired_def
          miaDoc_def)
  have s: "signUp asciiTrim asciiLower dirA signUpReq 7 ''hash''
      = (Inr (''Eve'', ''Doe'', ''eve@example.com''), dirA @ [eveDoc])"
    by (simp add: signUp_def signUpReq_def truthy_def findOneByEmail_def dirA_def
          normEmail_def asciiTrim_def asciiLower_def validateRequired_def eveDoc_def)
  have r: "createUser asciiTrim asciiLower dirA 5 createReq 7 ''hash''
      = (Inl (E403 ''You don't have permission to create users with this role''), dirA)"
    by (simp add: createUser_def createReq_def dirA_def findById_def canManageRole_def)
  note t = created_role_below_creator [where trim = asciiTrim and toLowerCase = asciiLower
      and dir = dirA and actorId = 2 and body = createReq and newId = 7 and h = "''hash''"
      and sbody = signUpReq]
  from t c s r show ?thesis by simp
qed

text \<open>
  The claim as stated fails: sign-up inserts a record into the empty directory,
  where no actor exists at all.
\<close>

theorem signUp_inserts_without_creator:
  "signUp asciiTrim asciiLower [] signUpReq 7 ''hash''
     = (Inr (''Eve'', ''Doe'', ''eve@example.com''), [eveDoc])"
  by (simp add: signUp_def signUpReq_def truthy_def findOneByEmail_def normEmail_def
        asciiTrim_def asciiLower_def validateRequired_def eveDoc_def)

section \<open>Sizes of the directory views\<close>

lemma visibleCount_found:
  "findById dir a = Some cu \<Longrightarrow> visibleCount dir a = length (filter (usersQuery dir cu) dir)"
  by (simp add: visibleCount_def getUsers_def)

lemma visibleCount_le_directory: "visibleCount dir a \<le> length dir"
  by (cases "findById dir a") (simp_all add: visibleCount_def getUsers_def)

lemma visibleCount_master:
  "findById dir a = Some cu \<Longrightarrow> role cu = Master \<Longrightarrow> visibleCount dir a = length dir"
  by (simp add: visibleCount_found usersQuery_def)

text \<open>
  Claim C9, as amended. For a fixed directory, a master's view is the whole directory
  and is at least as large as the view of any actor; an admin's view is at least as
  large as a manager's when every record that carries a manager or team-lead link
  has role manager, tl or user; a manager's view is at least as large as the view of
  a team lead who reports to that manager. (Nothing is said here about actors of
  role user.)
\<close>

theorem visibleCount_order:
  "(findById dir ms = Some cms \<and> role cms = Master
      \<longrightarrow> visibleCount dir ms = length dir \<and> visibleCount dir x \<le> visibleCount dir ms)
   \<and> (findById dir ad = Some cad \<and> role cad = Admin
       \<and> findById dir mg = Some cmg \<and> role cmg = Manager
       \<and> (\<forall>u \<in> set dir. managerId u \<noteq> None \<or> tlId u \<noteq> None
              \<longrightarrow> role u \<in> {Manager, Tl, User})
      \<longrightarrow> visibleCount dir mg \<le> visibleCount dir ad)
   \<and> (findById dir mg = Some cmg \<and> role cmg = Manager
       \<and> findById dir tlA = Some ctl \<and> role ctl = Tl \<and> managerId ctl = Some mg
      \<longrightarrow> visibleCount dir tlA \<le> visibleCount dir mg)"
proof (intro conjI impI; elim conjE)
  assume "findById dir ms = Some cms" "role cms = Master"
  then show "visibleCount dir ms = length dir" by (rule visibleCount_master)
  then show "visibleCount dir x \<le> visibleCount dir ms"
    by (simp add: visibleCount_le_directory)
next
  assume ad: "findById dir ad = Some cad" "role cad = Admin"
    and mg: "findById dir mg = Some cmg" "role cmg = Manager"
    and wf: "\<forall>u \<in> set dir. managerId u \<noteq> None \<or> tlId u \<noteq> None
               \<longrightarrow> role u \<in> {Manager, Tl, User}"
  have "usersQuery dir cad u" if "u \<in> set dir" "usersQuery dir cmg u" for u
  proof -
    from that(2) mg(2) have "managerId u \<noteq> None \<or> tlId u \<noteq> None"
      by (auto simp: usersQuery_def split: option.splits)
    with wf that(1) have "role u \<in> {Manager, Tl, User}" by blast
    with ad(2) show ?thesis by (simp add: usersQuery_def)
  qed
  then have "length (filter (usersQuery dir cmg) dir) \<le> length (filter (usersQuery dir cad) dir)"
    by (rule length_filter_mono)
  with ad(1) mg(1) show "visibleCount dir mg \<le> visibleCount dir ad"
    by (simp add: visibleCount_found)
next
  assume mg: "findById dir mg = Some cmg" "role cmg = Manager"
    and tlA: "findById dir tlA = Some ctl" "role ctl = Tl" "managerId ctl = Some mg"
  from mg(1) have umg: "uid cmg = mg" by (simp add: findById_SomeD)
  from tlA(1) have utl: "uid ctl = tlA" "ctl \<in> set dir" by (simp_all add: findById_SomeD)
  have "usersQuery dir cmg u" if "usersQuery dir ctl u" for u
  proof -
    from that tlA(2) utl(1) have "tlId u = Some tlA" by (simp add: usersQuery_def)
    moreover from utl tlA(3) umg
    have "tlA \<in> set (map uid (filter (\<lambda>v. managerId v = Some (uid cmg)) dir))"
      by force
    ultimately show ?thesis using mg(2) by (simp add: usersQuery_def)
  qed
  then have "length (filter (usersQuery dir ctl) dir) \<le> length (filter (usersQuery dir cmg) dir)"
    by (rule length_filter_mono)
  with tlA(1) mg(1) show "visibleCount dir tlA \<le> visibleCount dir mg"
    by (simp add: visibleCount_found)
qed

theorem visibleCount_order_witness:
  "visibleCount dirA 1 = length dirA
   \<and> visibleCount dirA 2 \<le> visibleCount dirA 1
   \<and> visibleCount dirA 3 \<le> visibleCount dirA 2
   \<and> visibleCount dirA 4 \<le> visibleCount dirA 3"
proof -
  have ms: "findById dirA 1 = Some (mkUser 1 ''master@x.org'' Master None None)"
    and ad: "findById dirA 2 = Some (mkUser 2 ''admin@x.org'' Admin None None)"
    and mg: "findById dirA 3 = Some (mkUser 3 ''manager@x.org'' Manager None None)"
    and tl: "findById dirA 4 = Some (mkUser 4 ''tl@x.org'' Tl None (Some 3))"
    by (simp_all add: findById_def dirA_def)
  have wf: "\<forall>u \<in> set dirA. managerId u \<noteq> None \<or> tlId u \<noteq> None
              \<longrightarrow> role u \<in> {Manager, Tl, User}"
    by (simp add: dirA_def)
  note t = visibleCount_order [of dirA 1 "mkUser 1 ''master@x.org'' Master None None" 2
      2 "mkUser 2 ''admin@x.org'' Admin None None"
      3 "mkUser 3 ''manager@x.org'' Manager None None"
      4 "mkUser 4 ''tl@x.org'' Tl None (Some 3)"]
  from t ms ad mg tl wf show ?thesis by simp
qed

text \<open>
  The claim as stated fails, in two ways. Views of unrelated actors are not ordered:
  in \<open>dirA\<close> the manager 6 has no reports and an empty view, while the team lead 4
  of another manager lists one user. And a manager lists reports of any role: in
  \<open>dirC\<close> the manager 3 lists the two admins that report to them, while the admin 2
  lists the manager only.
\<close>

theorem visibleCount_manager_below_tl:
  "map_option role (findById dirA 6) = Some Manager
   \<and> map_option role (findById dirA 4) = Some Tl
   \<and> visibleCount dirA 6 = 0 \<and> visibleCount dirA 4 = 1
   \<and> \<not> visibleCount dirA 4 \<le> visibleCount dirA 6
   \<and> map_option role (findById dirC 2) = Some Admin
   \<and> map_option role (findById dirC 3) = Some Manager
   \<and> visibleCount dirC 2 = 1 \<and> visibleCount dirC 3 = 2
   \<and> \<not> visibleCount dirC 3 \<le> visibleCount dirC 2"
  by (simp add: visibleCount_def getUsers_def findById_def dirA_def dirC_def usersQuery_def)

section \<open>Responses do not depend on passwords\<close>

lemma selectNoPassword_eq_iff:
  "selectNoPassword u = selectNoPassword v \<longleftrightarrow>
     uid u = uid v \<and> firstName u = firstName v \<and> lastName u = lastName v
     \<and> email u = email v \<and> phoneNum u = phoneNum v \<and> role u = role v
     \<and> tlId u = tlId v \<and> managerId u = managerId v \<and> status u = status v
     \<and> department u = department v \<and> position u = position v"
  by (simp add: selectNoPassword_def userDoc.truncate_def)

lemma selectNoPassword_password_update [simp]:
  "selectNoPassword (u\<lparr>password := p\<rparr>) = selectNoPassword u"
  by (simp add: selectNoPassword_def userDoc.truncate_def)

lemma find_public:
  assumes "map f xs = map f ys" and "\<And>x y. f x = f y \<Longrightarrow> P x = Q y"
  shows "map_option f (find P xs) = map_option f (find Q ys)"
  using assms(1)
proof (induction xs arbitrary: ys)
  case Nil
  then show ?case by simp
next
  case (Cons x xs)
  then obtain y ys' where ys: "ys = y # ys'" "f x = f y" "map f xs = map f ys'"
    by (cases ys) auto
  with Cons.IH assms(2) [of x y] show ?case by simp
qed

lemma filter_public:
  assumes "map f xs = map f ys" and "\<And>x y. f x = f y \<Longrightarrow> P x = Q y"
  shows "map f (filter P xs) = map f (filter Q ys)"
  using assms(1)
proof (induction xs arbitrary: ys)
  case Nil
  then show ?case by simp
next
  case (Cons x xs)
  then obtain y ys' where ys: "ys = y # ys'" "f x = f y" "map f xs = map f ys'"
    by (cases ys) auto
  with Cons.IH assms(2) [of x y] show ?case by simp
qed

lemma map_option_eq_SomeD:
  "map_option f x = map_option f y \<Longrightarrow> x = Some a \<Longrightarrow> \<exists>b. y = Some b \<and> f a = f b"
  by (cases y) auto

lemma findById_public:
  assumes "map selectNoPassword d1 = map selectNoPassword d2"
  shows "map_option selectNoPassword (findById d1 i)
       = map_option selectNoPassword (findById d2 i)"
  unfolding findById_def using assms
  by (rule find_public) (simp add: selectNoPassword_eq_iff)

lemma managedIds_public:
  assumes "map selectNoPassword d1 = map selectNoPassword d2"
  shows "map uid (filter (\<lambda>v. managerId v = Some c) d1)
       = map uid (filter (\<lambda>v. managerId v = Some c) d2)"
proof -
  have "map selectNoPassword (filter (\<lambda>v. managerId v = Some c) d1)
      = map selectNoPassword (filter (\<lambda>v. managerId v = Some c) d2)"
    using assms by (rule filter_public) (simp add: selectNoPassword_eq_iff)
  then have "map (uid \<circ> selectNoPassword) (filter (\<lambda>v. managerId v = Some c) d1)
      = map (uid \<circ> selectNoPassword) (filter (\<lambda>v. managerId v = Some c) d2)"
    by (simp only: map_map [symmetric])
  moreover have "(uid \<circ> selectNoPassword) = (uid :: user \<Rightarrow> nat)"
    by (rule ext) (simp add: selectNoPassword_def userDoc.truncate_def)
  ultimately show ?thesis by simp
qed

lemma usersQuery_public:
  assumes "map selectNoPassword d1 = map selectNoPassword d2"
    and "selectNoPassword c1 = selectNoPassword c2"
    and "selectNoPassword u = selectNoPassword v"
  shows "usersQuery d1 c1 u = usersQuery d2 c2 v"
proof -
  from assms(2) have c: "uid c1 = uid c2" "role c1 = role c2"
    by (simp_all add: selectNoPassword_eq_iff)
  from assms(3) have u: "role u = role v" "tlId u = tlId v" "managerId u = managerId v"
    by (simp_all add: selectNoPassword_eq_iff)
  note m = managedIds_public [OF assms(1), of "uid c2"]
  show ?thesis
    unfolding usersQuery_def c u m ..
qed

lemma getUsers_public:
  assumes "map selectNoPassword d1 = map selectNoPassword d2"
  shows "getUsers d1 a = getUsers d2 a"
proof -
  note f = findById_public [OF assms, of a]
  show ?thesis
  proof (cases "findById d1 a")
    case None
    with f have "findById d2 a = None" by simp
    with None show ?thesis by (simp add: getUsers_def)
  next
    case (Some c1)
    from map_option_eq_SomeD [OF f Some] obtain c2 where c2: "findById d2 a = Some c2"
      "selectNoPassword c1 = selectNoPassword c2" by auto
    have "map selectNoPassword (filter (usersQuery d1 c1) d1)
        = map selectNoPassword (filter (usersQuery d2 c2) d2)"
      using assms by (rule filter_public) (rule usersQuery_public [OF assms c2(2)])
    with Some c2(1) show ?thesis by (simp add: getUsers_def)
  qed
qed

lemma getMe_public:
  assumes "map selectNoPassword d1 = map selectNoPassword d2"
  shows "getMe d1 a = getMe d2 a"
  using findById_public [OF assms, of a]
  by (cases "findById d1 a"; cases "findById d2 a") (simp_all add: getMe_def)

lemma getUserById_public:
  assumes "map selectNoPassword d1 = map selectNoPassword d2"
  shows "getUserById d1 a t = getUserById d2 a t"
  using findById_public [OF assms, of t]
  by (cases "findById d1 t"; cases "findById d2 t") (simp_all add: getUserById_def)

lemma applyUpdates_public:
  assumes "selectNoPassword u = selectNoPassword v"
  shows "selectNoPassword (applyUpdates u b) = selectNoPassword (applyUpdates v b)"
  using assms
  by (simp add: selectNoPassword_def userDoc.truncate_def applyUpdates_def
        cong: option.case_cong)

lemma findByIdAndUpdate_public:
  assumes "map selectNoPassword d1 = map selectNoPassword d2"
  shows "map selectNoPassword (findByIdAndUpdate d1 i b)
       = map selectNoPassword (findByIdAndUpdate d2 i b)"
  using assms
proof (induction d1 arbitrary: d2)
  case Nil
  then show ?case by simp
next
  case (Cons x xs)
  then obtain y ys where ys: "d2 = y # ys" "selectNoPassword x = selectNoPassword y"
    "map selectNoPassword xs = map selectNoPassword ys"
    by (cases d2) auto
  from ys(2) have "uid x = uid y" by (simp add: selectNoPassword_eq_iff)
  with ys Cons.IH [of ys] applyUpdates_public [OF ys(2), of b]
  show ?case by simp
qed

lemma emailTakenByOther_public:
  assumes "map selectNoPassword d1 = map selectNoPassword d2"
  shows "emailTakenByOther d1 i b = emailTakenByOther d2 i b"
proof (cases "u_email b")
  case None
  then show ?thesis by (simp add: emailTakenByOther_def)
next
  case (Some e)
  have "map_option selectNoPassword (find (\<lambda>u. uid u \<noteq> i \<and> email u = e) d1)
      = map_option selectNoPassword (find (\<lambda>u. uid u \<noteq> i \<and> email u = e) d2)"
    using assms by (rule find_public) (simp add: selectNoPassword_eq_iff)
  then have "(find (\<lambda>u. uid u \<noteq> i \<and> email u = e) d1 = None)
      = (find (\<lambda>u. uid u \<noteq> i \<and> email u = e) d2 = None)"
    by (cases "find (\<lambda>u. uid u \<noteq> i \<and> email u = e) d1";
        cases "find (\<lambda>u. uid u \<noteq> i \<and> email u = e) d2") simp_all
  with Some show ?thesis by (simp add: emailTakenByOther_def)
qed

lemma updateUser_public:
  assumes "map selectNoPassword d1 = map selectNoPassword d2"
  shows "fst (updateUser d1 a t b) = fst (updateUser d2 a t b)"
    and "map selectNoPassword (snd (updateUser d1 a t b))
       = map selectNoPassword (snd (updateUser d2 a t b))"
proof -
  note fa = findById_public [OF assms, of a]
  note ft = findById_public [OF assms, of t]
  note e = emailTakenByOther_public [OF assms, of t b]
  note w = findByIdAndUpdate_public [OF assms, of t b]
  note u = findById_public [OF w, of t]
  show "fst (updateUser d1 a t b) = fst (updateUser d2 a t b)"
  proof (cases "findById d1 a")
    case None
    with fa have "findById d2 a = None" by simp
    with None show ?thesis by (simp add: updateUser_def)
  next
    case (Some c1)
    from map_option_eq_SomeD [OF fa Some] obtain c2 where c2: "findById d2 a = Some c2"
      "selectNoPassword c1 = selectNoPassword c2" by auto
    show ?thesis
    proof (cases "findById d1 t")
      case None
      with ft have "findById d2 t = None" by simp
      with None Some c2(1) show ?thesis by (simp add: updateUser_def)
    next
      case t1: (Some t1)
      from map_option_eq_SomeD [OF ft t1] obtain t2 where t2: "findById d2 t = Some t2"
        "selectNoPassword t1 = selectNoPassword t2" by auto
      have r: "uid c1 = uid c2" "role c1 = role c2" "role t1 = role t2"
        using c2(2) t2(2) by (simp_all add: selectNoPassword_eq_iff)
      show ?thesis
        unfolding fst_updateUser Some c2(1) t1 t2(1) option.case r e u ..
    qed
  qed
  have "snd (updateUser d1 a t b) = d1 \<and> snd (updateUser d2 a t b) = d2
      \<or> snd (updateUser d1 a t b) = findByIdAndUpdate d1 t b
        \<and> snd (updateUser d2 a t b) = findByIdAndUpdate d2 t b"
  proof (cases "findById d1 a")
    case None
    with fa have "findById d2 a = None" by simp
    with None show ?thesis by (simp add: updateUser_def)
  next
    case (Some c1)
    from map_option_eq_SomeD [OF fa Some] obtain c2 where c2: "findById d2 a = Some c2"
      "selectNoPassword c1 = selectNoPassword c2" by auto
    show ?thesis
    proof (cases "findById d1 t")
      case None
      with ft have "findById d2 t = None" by simp
      with None Some c2(1) show ?thesis by (simp add: updateUser_def)
    next
      case t1: (Some t1)
      from map_option_eq_SomeD [OF ft t1] obtain t2 where t2: "findById d2 t = Some t2"
        "selectNoPassword t1 = selectNoPassword t2" by auto
      have r: "uid c1 = uid c2" "role c1 = role c2" "role t1 = role t2"
        using c2(2) t2(2) by (simp_all add: selectNoPassword_eq_iff)
      show ?thesis
        unfolding updateUser_def Some c2(1) t1 t2(1) option.case r e Let_def
        by simp
    qed
  qed
  with assms w
  show "map selectNoPassword (snd (updateUser d1 a t b))
      = map selectNoPassword (snd (updateUser d2 a t b))"
    by auto
qed

text \<open>
  Claim C10. The responses of the routes that return user records (current user,
  directory listing, single user, update) carry no password, and they do not depend
  on the stored passwords: two directories that differ only in password fields, that
  is, whose documents agree after the password is dropped, give identical responses.
\<close>

theorem responses_ignore_password:
  assumes "map selectNoPassword d1 = map selectNoPassword d2"
  shows "getMe d1 actorId = getMe d2 actorId
       \<and> getUsers d1 actorId = getUsers d2 actorId
       \<and> getUserById d1 actorId targetId = getUserById d2 actorId targetId
       \<and> fst (updateUser d1 actorId targetId body) = fst (updateUser d2 actorId targetId body)"
  using getMe_public [OF assms] getUsers_public [OF assms] getUserById_public [OF assms]
    updateUser_public(1) [OF assms]
  by simp

theorem responses_ignore_password_witness:
  "dirA \<noteq> dirA_rehashed
   \<and> getMe dirA 5 = getMe dirA_rehashed 5
   \<and> getUsers dirA 5 = getUsers dirA_rehashed 5
   \<and> getUserById dirA 5 1 = getUserById dirA_rehashed 5 1
   \<and> fst (updateUser dirA 5 1 (bodyNone\<lparr>u_firstName := Some ''Ann''\<rparr>))
       = fst (updateUser dirA_rehashed 5 1 (bodyNone\<lparr>u_firstName := Some ''Ann''\<rparr>))"
proof -
  have h: "map selectNoPassword dirA = map selectNoPassword dirA_rehashed"
    by (simp add: dirA_rehashed_def comp_def)
  have n: "dirA \<noteq> dirA_rehashed"
    by (simp add: dirA_rehashed_def dirA_def mkUser_def)
  from n responses_ignore_password [OF h] show ?thesis by simp
qed

end
